theory Spec2Isabelle
  imports Main "HOL-Library.AList" "HOL-Library.Sublist"
begin

section \<open>Exceptions\<close>

text \<open>
  The program raises \<open>ValueError\<close> with a message; opening a missing file raises
  \<open>FileNotFoundError\<close>. An exception is a value of this type.
\<close>

datatype error = ValueError string | FileNotFoundError

text \<open>
  A method that mutates its object and may raise returns the exception (if any) together
  with the state of the object when the method leaves: an assignment made before the
  \<open>raise\<close> stays.
\<close>

type_synonym 's effect = "error option \<times> 's"

section \<open>Strings\<close>

text \<open>
  A Python \<open>str\<close> is modelled as a \<open>string\<close> whose characters are the code points
  below 256. On these, \<open>str.isdigit\<close> holds of \<open>0\<close> to \<open>9\<close> and of the superscript
  digits U+00B2, U+00B3 and U+00B9; it is false of the empty string.
\<close>

definition isdigit_char :: "char \<Rightarrow> bool" where
  "isdigit_char c =
     (let n = (of_char c :: nat)
      in (48 \<le> n \<and> n \<le> 57) \<or> n = 178 \<or> n = 179 \<or> n = 185)"

definition isdigit :: "string \<Rightarrow> bool" where
  "isdigit s = (s \<noteq> [] \<and> list_all isdigit_char s)"




text \<open>\<open>sep.join(xs)\<close>.\<close>

fun join :: "string \<Rightarrow> string list \<Rightarrow> string" where
  "join sep [] = []"
| "join sep [x] = x"
| "join sep (x # y # ys) = x @ sep @ join sep (y # ys)"

section \<open>Fields\<close>

datatype Name = Name (name_value: string)

datatype Phone = Phone_of (phone_value: string)

text \<open>The setter of \<open>Phone.value\<close>, as run by the constructor \<open>Phone(value)\<close>.\<close>

definition Phone :: "string \<Rightarrow> error + Phone" where
  "Phone v =
     (if isdigit v \<and> length v = 10 then Inr (Phone_of v)
      else Inl (ValueError ''Invalid phone number format. Phone not added.''))"

section \<open>Calendar dates\<close>

text \<open>
  \<open>datetime.date\<close> and \<open>datetime.datetime\<close> of the standard library: the proleptic
  Gregorian calendar, years 1 to 9999. A constructor raises \<open>ValueError\<close> on fields
  out of range (the library's messages carry the offending number; it is left out here).
\<close>

record date =
  year :: nat
  month :: nat
  day :: nat

record datetime = date +
  hour :: nat
  minute :: nat
  second :: nat
  microsecond :: nat

definition is_leap :: "nat \<Rightarrow> bool" where
  "is_leap y = (y mod 4 = 0 \<and> (y mod 100 \<noteq> 0 \<or> y mod 400 = 0))"

definition days_in_month :: "nat \<Rightarrow> nat \<Rightarrow> nat" where
  "days_in_month y m =
     (if m = 2 \<and> is_leap y then 29
      else [31, 28, 31, 30, 31, 30, 31, 31, 30, 31, 30, 31] ! (m - 1))"

definition days_before_year :: "nat \<Rightarrow> int" where
  "days_before_year y = (let y1 = int y - 1 in y1 * 365 + y1 div 4 - y1 div 100 + y1 div 400)"

definition days_before_month :: "nat \<Rightarrow> nat \<Rightarrow> int" where
  "days_before_month y m =
     [0, 31, 59, 90, 120, 151, 181, 212, 243, 273, 304, 334] ! (m - 1)
       + (if m > 2 \<and> is_leap y then 1 else 0)"

definition ymd2ord :: "nat \<Rightarrow> nat \<Rightarrow> nat \<Rightarrow> int" where
  "ymd2ord y m d = days_before_year y + days_before_month y m + int d"

definition check_date_fields :: "nat \<Rightarrow> nat \<Rightarrow> nat \<Rightarrow> error option" where
  "check_date_fields y m d =
     (if \<not> (1 \<le> y \<and> y \<le> 9999) then Some (ValueError ''year is out of range'')
      else if \<not> (1 \<le> m \<and> m \<le> 12) then Some (ValueError ''month must be in 1..12'')
      else if \<not> (1 \<le> d \<and> d \<le> days_in_month y m)
        then Some (ValueError ''day is out of range for month'')
      else None)"

text \<open>\<open>date(y, m, d)\<close> and \<open>datetime(y, m, d)\<close>, the latter at midnight.\<close>

definition date_new :: "nat \<Rightarrow> nat \<Rightarrow> nat \<Rightarrow> error + date" where
  "date_new y m d =
     (case check_date_fields y m d of
        Some e \<Rightarrow> Inl e
      | None \<Rightarrow> Inr \<lparr>year = y, month = m, day = d\<rparr>)"

definition datetime_new :: "nat \<Rightarrow> nat \<Rightarrow> nat \<Rightarrow> error + datetime" where
  "datetime_new y m d =
     (case check_date_fields y m d of
        Some e \<Rightarrow> Inl e
      | None \<Rightarrow> Inr \<lparr>year = y, month = m, day = d,
                      hour = 0, minute = 0, second = 0, microsecond = 0\<rparr>)"

definition toordinal :: "'a date_scheme \<Rightarrow> int" where
  "toordinal d = ymd2ord (year d) (month d) (day d)"

text \<open>Comparison of two datetimes: their field tuples, lexicographically.\<close>

fun tuple_gt :: "nat list \<Rightarrow> nat list \<Rightarrow> bool" where
  "tuple_gt (x # xs) (y # ys) = (x > y \<or> (x = y \<and> tuple_gt xs ys))"
| "tuple_gt _ _ = False"

definition datetime_fields :: "datetime \<Rightarrow> nat list" where
  "datetime_fields t = [year t, month t, day t, hour t, minute t, second t, microsecond t]"

definition datetime_gt :: "datetime \<Rightarrow> datetime \<Rightarrow> bool" where
  "datetime_gt a b = tuple_gt (datetime_fields a) (datetime_fields b)"

text \<open>
  \<open>(a - b).days\<close>: the difference is a \<open>timedelta\<close> built from the differences of the
  ordinals, of the seconds of the day and of the microseconds, and normalised so that
  seconds and microseconds are non-negative; its \<open>days\<close> is the floor.
\<close>

definition timedelta_days :: "int \<Rightarrow> int \<Rightarrow> int \<Rightarrow> int" where
  "timedelta_days days seconds microseconds =
     ((days * 86400 + seconds) * 1000000 + microseconds) div (86400 * 1000000)"

definition datetime_sub_days :: "datetime \<Rightarrow> datetime \<Rightarrow> int" where
  "datetime_sub_days a b =
     timedelta_days (toordinal a - toordinal b)
       (int (second a + minute a * 60 + hour a * 3600)
          - int (second b + minute b * 60 + hour b * 3600))
       (int (microsecond a) - int (microsecond b))"

text \<open>\<open>str(d)\<close> of a date: \<open>%04d-%02d-%02d\<close>.\<close>

definition digit_char :: "nat \<Rightarrow> char" where
  "digit_char n = char_of (48 + n mod 10)"

definition str_date :: "date \<Rightarrow> string" where
  "str_date d =
     [digit_char (year d div 1000), digit_char (year d div 100),
      digit_char (year d div 10), digit_char (year d), CHR ''-'',
      digit_char (month d div 10), digit_char (month d), CHR ''-'',
      digit_char (day d div 10), digit_char (day d)]"

subsection \<open>Parsing with the format \<open>%Y-%m-%d\<close>\<close>

text \<open>
  \<open>datetime.strptime(s, '%Y-%m-%d')\<close> matches \<open>s\<close> from its start against the regular
  expression
  \<^verbatim>\<open>(?P<Y>\d\d\d\d)-(?P<m>1[0-2]|0[1-9]|[1-9])-(?P<d>3[0-1]|[1-2]\d|0[1-9]|[1-9]| [1-9])\<close>
  and raises \<open>ValueError\<close> when there is no match, when the match does not reach the end of
  \<open>s\<close>, or when the three numbers are not a date. Each part of the expression is modelled
  by the list of its matches (value and rest of the input) in the order the backtracking
  matcher tries them; the matcher returns the first match of the whole expression.
\<close>

type_synonym 'a matches = "('a \<times> string) list"

definition chr_in :: "char \<Rightarrow> char \<Rightarrow> char \<Rightarrow> bool" where
  "chr_in lo hi c = ((of_char lo :: nat) \<le> of_char c \<and> (of_char c :: nat) \<le> of_char hi)"

definition digit_val :: "char \<Rightarrow> nat" where
  "digit_val c = of_char c - 48"

fun re_lit :: "char \<Rightarrow> string \<Rightarrow> unit matches" where
  "re_lit x (c # rest) = (if c = x then [((), rest)] else [])"
| "re_lit x [] = []"

fun re_one :: "(char \<Rightarrow> bool) \<Rightarrow> string \<Rightarrow> nat matches" where
  "re_one p (a # rest) = (if p a then [(digit_val a, rest)] else [])"
| "re_one p [] = []"

fun re_two :: "(char \<Rightarrow> bool) \<Rightarrow> (char \<Rightarrow> bool) \<Rightarrow> string \<Rightarrow> nat matches" where
  "re_two p q (a # b # rest) = (if p a \<and> q b then [(10 * digit_val a + digit_val b, rest)] else [])"
| "re_two p q _ = []"

text \<open>A space and a digit: \<open>int(' 5')\<close> is 5.\<close>

fun re_space_digit :: "string \<Rightarrow> nat matches" where
  "re_space_digit (a # b # rest) =
     (if a = CHR '' '' \<and> chr_in CHR ''1'' CHR ''9'' b then [(digit_val b, rest)] else [])"
| "re_space_digit _ = []"

fun re_Y :: "string \<Rightarrow> nat matches" where
  "re_Y (a # b # c # d # rest) =
     (if chr_in CHR ''0'' CHR ''9'' a \<and> chr_in CHR ''0'' CHR ''9'' b
         \<and> chr_in CHR ''0'' CHR ''9'' c \<and> chr_in CHR ''0'' CHR ''9'' d
      then [(1000 * digit_val a + 100 * digit_val b + 10 * digit_val c + digit_val d, rest)]
      else [])"
| "re_Y _ = []"

definition re_m :: "string \<Rightarrow> nat matches" where
  "re_m s =
     re_two (\<lambda>c. c = CHR ''1'') (chr_in CHR ''0'' CHR ''2'') s
     @ re_two (\<lambda>c. c = CHR ''0'') (chr_in CHR ''1'' CHR ''9'') s
     @ re_one (chr_in CHR ''1'' CHR ''9'') s"

definition re_d :: "string \<Rightarrow> nat matches" where
  "re_d s =
     re_two (\<lambda>c. c = CHR ''3'') (chr_in CHR ''0'' CHR ''1'') s
     @ re_two (chr_in CHR ''1'' CHR ''2'') (chr_in CHR ''0'' CHR ''9'') s
     @ re_two (\<lambda>c. c = CHR ''0'') (chr_in CHR ''1'' CHR ''9'') s
     @ re_one (chr_in CHR ''1'' CHR ''9'') s
     @ re_space_digit s"

definition format_regex_match :: "string \<Rightarrow> (nat \<times> nat \<times> nat) matches" where
  "format_regex_match s =
     [((y, m, d), r5).
        (y, r1) \<leftarrow> re_Y s, (u, r2) \<leftarrow> re_lit CHR ''-'' r1, (m, r3) \<leftarrow> re_m r2,
        (v, r4) \<leftarrow> re_lit CHR ''-'' r3, (d, r5) \<leftarrow> re_d r4]"

definition strptime :: "string \<Rightarrow> error + date" where
  "strptime data_string =
     (case format_regex_match data_string of
        [] \<Rightarrow> Inl (ValueError ''time data does not match format'')
      | ((y, m, d), rest) # _ \<Rightarrow>
          if rest \<noteq> [] then Inl (ValueError ''unconverted data remains'')
          else date_new y m d)"

datatype Birthday = Birthday_of (birthday_value: date)

text \<open>The setter of \<open>Birthday.value\<close>, as run by the constructor \<open>Birthday(value)\<close>.\<close>

definition Birthday :: "string \<Rightarrow> error + Birthday" where
  "Birthday v =
     (case strptime v of
        Inr d \<Rightarrow> Inr (Birthday_of d)
      | Inl (ValueError msg) \<Rightarrow> Inl (ValueError ''Invalid birthday format. Use YYYY-MM-DD'')
      | Inl e \<Rightarrow> Inl e)"

section \<open>Record\<close>

record Record =
  name :: Name
  phones :: "Phone list"
  birthday :: "Birthday option"

text \<open>
  \<open>Record(name, birthday=None)\<close>: the birthday argument is \<open>None\<close> or a string, and the
  empty string counts as no birthday.
\<close>

definition Record :: "string \<Rightarrow> string option \<Rightarrow> error + Record" where
  "Record nm bd =
     (case bd of
        None \<Rightarrow> Inr \<lparr>name = Name nm, phones = [], birthday = None\<rparr>
      | Some v \<Rightarrow>
          if v = [] then Inr \<lparr>name = Name nm, phones = [], birthday = None\<rparr>
          else (case Birthday v of
                  Inl e \<Rightarrow> Inl e
                | Inr b \<Rightarrow> Inr \<lparr>name = Name nm, phones = [], birthday = Some b\<rparr>))"

definition str_Record :: "Record \<Rightarrow> string" where
  "str_Record r =
     ''Contact name: '' @ name_value (name r) @ '', phones: ''
       @ join ''; '' (map phone_value (phones r))"

definition add_phone :: "string \<Rightarrow> Record \<Rightarrow> Record effect" where
  "add_phone phone r =
     (case Phone phone of
        Inl e \<Rightarrow> (Some e, r)
      | Inr p \<Rightarrow> (None, r\<lparr>phones := phones r @ [p]\<rparr>))"

definition remove_phone :: "string \<Rightarrow> Record \<Rightarrow> Record" where
  "remove_phone phone r = r\<lparr>phones := filter (\<lambda>p. phone_value p \<noteq> phone) (phones r)\<rparr>"

definition edit_phone :: "string \<Rightarrow> string \<Rightarrow> Record \<Rightarrow> Record effect" where
  "edit_phone old_phone new_phone r =
     (if \<not> list_ex (\<lambda>p. phone_value p = old_phone) (phones r)
      then (Some (ValueError ''Phone number not found.''), r)
      else add_phone new_phone (remove_phone old_phone r))"

fun find_phone :: "string \<Rightarrow> Phone list \<Rightarrow> Phone option" where
  "find_phone phone [] = None"
| "find_phone phone (p # ps) = (if phone_value p = phone then Some p else find_phone phone ps)"

text \<open>
  \<open>days_to_birthday\<close> reads the clock: \<open>today\<close> is the value of \<open>datetime.today()\<close>, date
  and time of day.
\<close>

definition days_to_birthday :: "datetime \<Rightarrow> Record \<Rightarrow> error + int option" where
  "days_to_birthday today r =
     (case birthday r of
        None \<Rightarrow> Inr None
      | Some b \<Rightarrow>
          (case datetime_new (year today) (month (birthday_value b)) (day (birthday_value b)) of
             Inl e \<Rightarrow> Inl e
           | Inr next_birthday \<Rightarrow>
               if datetime_gt today next_birthday
               then (case datetime_new (year today + 1)
                            (month (birthday_value b)) (day (birthday_value b)) of
                       Inl e \<Rightarrow> Inl e
                     | Inr next_birthday1 \<Rightarrow> Inr (Some (datetime_sub_days next_birthday1 today)))
               else Inr (Some (datetime_sub_days next_birthday today))))"

section \<open>AddressBook\<close>

text \<open>
  The book's \<open>data\<close> is a \<open>dict\<close> from name to record. A dict keeps its keys in insertion
  order, and the order is what \<open>find\<close> and \<open>iterator\<close> walk through, so it is an
  association list: assigning to a key that is present replaces the value in place,
  assigning to a new key appends.
\<close>

record AddressBook =
  data :: "(string \<times> Record) list"

definition add_record :: "Record \<Rightarrow> AddressBook \<Rightarrow> AddressBook" where
  "add_record record b = b\<lparr>data := AList.update (name_value (name record)) record (data b)\<rparr>"

definition delete :: "string \<Rightarrow> AddressBook \<Rightarrow> AddressBook" where
  "delete nm b = (if nm \<in> fst ` set (data b) then b\<lparr>data := AList.delete nm (data b)\<rparr> else b)"




text \<open>The generator \<open>iterator\<close>, as the list of the pages it yields.\<close>

fun iterator_loop :: "int \<Rightarrow> (string \<times> Record) list \<Rightarrow> int \<Rightarrow> string \<Rightarrow> string list" where
  "iterator_loop item_number [] counter result = []"
| "iterator_loop item_number ((item, record) # rest) counter result =
     (let result1 = result @ item @ '': '' @ str_Record record;
          counter1 = counter + 1
      in if counter1 \<ge> item_number then result1 # iterator_loop item_number rest 0 []
         else iterator_loop item_number rest counter1 result1)"

definition iterator :: "int \<Rightarrow> AddressBook \<Rightarrow> string list" where
  "iterator item_number b = iterator_loop item_number (data b) 0 []"

subsection \<open>Persistence\<close>

text \<open>
  The file holds the JSON document \<open>{"records": {name: {"phones": [...], "birthday": ...}}}\<close>.
  \<open>json.dump\<close> and \<open>json.load\<close> are taken as inverse to each other on documents of this
  shape, so a file's content is the document itself: the object under \<open>records\<close>, its
  members in order. The file system maps a file name to the content of the file.
\<close>

record record_data =
  phones_json :: "string list"
  birthday_json :: "string option"

type_synonym document = "(string \<times> record_data) list"

type_synonym filesystem = "string \<rightharpoonup> document"

text \<open>The dict comprehension of \<open>save_to_file\<close>: one assignment per item.\<close>

definition dict_of_items :: "('k \<times> 'v) list \<Rightarrow> ('k \<times> 'v) list" where
  "dict_of_items items = fold (\<lambda>(k, v) acc. AList.update k v acc) items []"

definition record_to_json :: "Record \<Rightarrow> record_data" where
  "record_to_json record =
     \<lparr>phones_json = map phone_value (phones record),
      birthday_json = (case birthday record of
                         Some b \<Rightarrow> Some (str_date (birthday_value b))
                       | None \<Rightarrow> None)\<rparr>"

definition save_to_file :: "string \<Rightarrow> AddressBook \<Rightarrow> filesystem \<Rightarrow> filesystem" where
  "save_to_file filename b fs =
     fs(filename \<mapsto> dict_of_items (map (\<lambda>(nm, record). (nm, record_to_json record)) (data b)))"

fun add_phones :: "string list \<Rightarrow> Record \<Rightarrow> Record effect" where
  "add_phones [] record = (None, record)"
| "add_phones (phone # rest) record =
     (case add_phone phone record of
        (Some e, record1) \<Rightarrow> (Some e, record1)
      | (None, record1) \<Rightarrow> add_phones rest record1)"

fun load_records :: "document \<Rightarrow> AddressBook \<Rightarrow> AddressBook effect" where
  "load_records [] b = (None, b)"
| "load_records ((nm, rd) # rest) b =
     (case Record nm (birthday_json rd) of
        Inl e \<Rightarrow> (Some e, b)
      | Inr record \<Rightarrow>
          (case add_phones (phones_json rd) record of
             (Some e, record1) \<Rightarrow> (Some e, b)
           | (None, record1) \<Rightarrow> load_records rest (add_record record1 b)))"

definition load_from_file :: "string \<Rightarrow> filesystem \<Rightarrow> AddressBook \<Rightarrow> AddressBook effect" where
  "load_from_file filename fs b =
     (case fs filename of
        None \<Rightarrow> (Some FileNotFoundError, b)
      | Some doc \<Rightarrow> load_records doc b)"

section \<open>Books the program can build\<close>

text \<open>
  A book starts empty (\<open>AddressBook()\<close>) and changes by \<open>add_record\<close>, \<open>delete\<close> and
  \<open>load_from_file\<close>; a load that raises leaves the records it has added so far.
\<close>

inductive reachable :: "AddressBook \<Rightarrow> bool" where
  reachable_empty: "reachable \<lparr>data = []\<rparr>"
| reachable_add_record: "reachable b \<Longrightarrow> reachable (add_record record b)"
| reachable_delete: "reachable b \<Longrightarrow> reachable (delete nm b)"
| reachable_load: "reachable b \<Longrightarrow> reachable (snd (load_from_file filename fs b))"

text \<open>Every key of the book is the name of the record stored under it, and no key occurs twice.\<close>

definition keyed_by_name :: "AddressBook \<Rightarrow> bool" where
  "keyed_by_name b =
     (distinct (map fst (data b)) \<and> (\<forall>(k, r)\<in>set (data b). name_value (name r) = k))"

text \<open>The entry of a page for one item of the book, and the pages of full size.\<close>

definition entry :: "string \<times> Record \<Rightarrow> string" where
  "entry kr = fst kr @ '': '' @ str_Record (snd kr)"

definition full_pages :: "nat \<Rightarrow> string list \<Rightarrow> string list" where
  "full_pages n es = map (\<lambda>i. concat (take n (drop (i * n) es))) [0..<length es div n]"

section \<open>Notions of the specification\<close>

text \<open>
  The decimal digits \<open>0\<close> to \<open>9\<close>: what the specification calls a digit of a phone
  number ("exactly 10 decimal digits").
\<close>

definition decimal_digit :: "char \<Rightarrow> bool" where
  "decimal_digit c = ((of_char CHR ''0'' :: nat) \<le> of_char c \<and> (of_char c :: nat) \<le> of_char CHR ''9'')"




text \<open>
  Dates as the specification writes them. \<open>iso_format\<close> is the strict form \<open>YYYY-MM-DD\<close>:
  ten characters, decimal digits with a dash after the year and after the month.
  \<open>written_date\<close> is the wider form \<open>Y-M-D\<close>: a year of four decimal digits, a month from
  1 to 12 of one or two decimal digits, and a day from 1 to 31 of one or two decimal
  digits or of a space and a digit from 1 to 9; it yields the three numbers read in base
  ten.
\<close>

definition decimal_value :: "string \<Rightarrow> nat" where
  "decimal_value s = foldl (\<lambda>n c. 10 * n + (of_char c - 48)) 0 s"

definition iso_format :: "string \<Rightarrow> bool" where
  "iso_format s =
     (length s = 10 \<and> list_all decimal_digit (take 4 s) \<and> s ! 4 = CHR ''-''
      \<and> list_all decimal_digit (take 2 (drop 5 s)) \<and> s ! 7 = CHR ''-''
      \<and> list_all decimal_digit (drop 8 s))"

definition month_field :: "string \<Rightarrow> bool" where
  "month_field f =
     ((length f = 1 \<or> length f = 2) \<and> list_all decimal_digit f
      \<and> 1 \<le> decimal_value f \<and> decimal_value f \<le> 12)"

definition day_field :: "string \<Rightarrow> bool" where
  "day_field f =
     (((length f = 1 \<or> length f = 2) \<and> list_all decimal_digit f
        \<and> 1 \<le> decimal_value f \<and> decimal_value f \<le> 31)
      \<or> (length f = 2 \<and> f ! 0 = CHR '' '' \<and> decimal_digit (f ! 1) \<and> f ! 1 \<noteq> CHR ''0''))"

definition day_value :: "string \<Rightarrow> nat" where
  "day_value f = decimal_value (if f ! 0 = CHR '' '' then drop 1 f else f)"

definition written_date :: "string \<Rightarrow> (nat \<times> nat \<times> nat) option" where
  "written_date s =
     (if length s < 8 then None
      else let Y = take 4 s;
               M = (if s ! 6 = CHR ''-'' then take 1 (drop 5 s) else take 2 (drop 5 s));
               D = drop (6 + length M) s
           in if list_all decimal_digit Y \<and> s ! 4 = CHR ''-'' \<and> month_field M
                 \<and> s ! (5 + length M) = CHR ''-'' \<and> day_field D
              then Some (decimal_value Y, decimal_value M, day_value D)
              else None)"

text \<open>
  What \<open>strptime\<close> keeps of the answer of the matcher: the value of the first match, when
  that match reaches the end of the input.
\<close>

definition first_full :: "'a matches \<Rightarrow> 'a option" where
  "first_full ms = (case ms of [] \<Rightarrow> None | (v, rest) # _ \<Rightarrow> if rest = [] then Some v else None)"

section \<open>Properties\<close>

subsection \<open>Phone validation\<close>

lemma isdigit_iff: "isdigit s \<longleftrightarrow> s \<noteq> [] \<and> (\<forall>c\<in>set s. isdigit_char c)"
  by (simp add: isdigit_def list_all_iff)

lemma char_eq_code: "c = d \<longleftrightarrow> (of_char c :: nat) = of_char d"
  by simp

lemma isdigit_char_iff:
  "isdigit_char c \<longleftrightarrow> decimal_digit c \<or> c = CHR 0xB2 \<or> c = CHR 0xB3 \<or> c = CHR 0xB9"
  unfolding isdigit_char_def decimal_digit_def Let_def char_eq_code [of c]
  by simp

text \<open>
  Ten superscript twos (U+00B2) make a phone: \<open>str.isdigit\<close> holds of the string and its
  length is 10, although none of its characters is a decimal digit.
\<close>

theorem Phone_superscript_digits:
  "Phone [CHR 0xB2, CHR 0xB2, CHR 0xB2, CHR 0xB2, CHR 0xB2, CHR 0xB2, CHR 0xB2, CHR 0xB2, CHR 0xB2, CHR 0xB2]
     = Inr (Phone_of [CHR 0xB2, CHR 0xB2, CHR 0xB2, CHR 0xB2, CHR 0xB2, CHR 0xB2, CHR 0xB2, CHR 0xB2, CHR 0xB2, CHR 0xB2])
   \<and> \<not> list_all decimal_digit [CHR 0xB2, CHR 0xB2, CHR 0xB2, CHR 0xB2, CHR 0xB2, CHR 0xB2, CHR 0xB2, CHR 0xB2, CHR 0xB2, CHR 0xB2]"
  by (simp add: Phone_def isdigit_def isdigit_char_def decimal_digit_def)

text \<open>
  C2, as the code has it. Constructing a Phone from a string \<open>p\<close> succeeds exactly when
  \<open>p\<close> has length 10 and every character of \<open>p\<close> is a digit character in the sense of
  \<open>str.isdigit\<close>, which on code points below 256 are the decimal digits and the
  superscript digits U+00B2, U+00B3 and U+00B9; the phone then holds \<open>p\<close> itself. In
  every other case the constructor raises the validation error and yields no phone.
\<close>

theorem Phone_valid_iff:
  "(Phone p = Inr (Phone_of p) \<longleftrightarrow>
      length p = 10
      \<and> (\<forall>c\<in>set p. decimal_digit c \<or> c = CHR 0xB2 \<or> c = CHR 0xB3 \<or> c = CHR 0xB9))
   \<and> (\<forall>ph. Phone p = Inr ph \<longrightarrow> phone_value ph = p)
   \<and> (\<not> (length p = 10
          \<and> (\<forall>c\<in>set p. decimal_digit c \<or> c = CHR 0xB2 \<or> c = CHR 0xB3 \<or> c = CHR 0xB9)) \<longrightarrow>
        Phone p = Inl (ValueError ''Invalid phone number format. Phone not added.''))"
  unfolding isdigit_char_iff [symmetric]
  by (auto simp: Phone_def isdigit_iff)

theorem Phone_valid_iff_witness:
  "Phone ''1234567890'' = Inr (Phone_of ''1234567890'')
   \<and> Phone [CHR ''1'', CHR 0xB2, CHR 0xB3, CHR 0xB9, CHR ''5'', CHR ''6'', CHR ''7'', CHR ''8'',
        CHR ''9'', CHR ''0'']
     = Inr (Phone_of [CHR ''1'', CHR 0xB2, CHR 0xB3, CHR 0xB9, CHR ''5'', CHR ''6'', CHR ''7'',
        CHR ''8'', CHR ''9'', CHR ''0''])
   \<and> Phone ''12345'' = Inl (ValueError ''Invalid phone number format. Phone not added.'')
   \<and> Phone ''12345678901'' = Inl (ValueError ''Invalid phone number format. Phone not added.'')
   \<and> Phone ''12345x7890'' = Inl (ValueError ''Invalid phone number format. Phone not added.'')
   \<and> Phone ''123-456-78'' = Inl (ValueError ''Invalid phone number format. Phone not added.'')
   \<and> Phone ''12345678/:'' = Inl (ValueError ''Invalid phone number format. Phone not added.'')
   \<and> Phone [] = Inl (ValueError ''Invalid phone number format. Phone not added.'')"
  using Phone_valid_iff [of "''1234567890''"] Phone_valid_iff [of "''12345''"]
    Phone_valid_iff [of "[CHR ''1'', CHR 0xB2, CHR 0xB3, CHR 0xB9, CHR ''5'', CHR ''6'', CHR ''7'',
        CHR ''8'', CHR ''9'', CHR ''0'']"]
    Phone_valid_iff [of "''12345678901''"]
    Phone_valid_iff [of "''12345x7890''"] Phone_valid_iff [of "''123-456-78''"]
    Phone_valid_iff [of "''12345678/:''"] Phone_valid_iff [of "[]"]
  by (simp add: decimal_digit_def)

subsection \<open>Editing a phone\<close>

text \<open>
  C4. When no phone of the record equals \<open>old\<close>, \<open>edit_phone old new\<close> raises
  "Phone number not found." and the record is as it was. When some phone equals \<open>old\<close>
  and \<open>new\<close> passes the validation, every phone equal to \<open>old\<close> is removed and the
  validated \<open>new\<close> is appended.
\<close>

theorem edit_phone_found_or_not:
  "(\<not> (\<exists>p\<in>set (phones r). phone_value p = old) \<longrightarrow>
      edit_phone old new r = (Some (ValueError ''Phone number not found.''), r))
   \<and> ((\<exists>p\<in>set (phones r). phone_value p = old) \<and> Phone new = Inr ph \<longrightarrow>
      edit_phone old new r =
        (None, r\<lparr>phones := filter (\<lambda>p. phone_value p \<noteq> old) (phones r) @ [ph]\<rparr>))"
  by (auto simp: edit_phone_def add_phone_def remove_phone_def list_ex_iff)

theorem edit_phone_found_or_not_witness:
  "edit_phone ''1234567890'' ''0987654321''
     \<lparr>name = Name ''Bob'', phones = [Phone_of ''5555555555''], birthday = None\<rparr>
   = (Some (ValueError ''Phone number not found.''),
      \<lparr>name = Name ''Bob'', phones = [Phone_of ''5555555555''], birthday = None\<rparr>)
   \<and> Phone ''0987654321'' = Inr (Phone_of ''0987654321'')
   \<and> edit_phone ''1234567890'' ''0987654321''
     \<lparr>name = Name ''Bob'', phones = [Phone_of ''1234567890'', Phone_of ''5555555555''],
        birthday = None\<rparr>
   = (None, \<lparr>name = Name ''Bob'',
              phones = [Phone_of ''5555555555'', Phone_of ''0987654321''],
              birthday = None\<rparr>)"
proof -
  have v: "Phone ''0987654321'' = Inr (Phone_of ''0987654321'')"
    by (simp add: Phone_def isdigit_def isdigit_char_def)
  show ?thesis
    using v
      edit_phone_found_or_not [of
        "\<lparr>name = Name ''Bob'', phones = [Phone_of ''5555555555''], birthday = None\<rparr>"
        "''1234567890''" "''0987654321''" "Phone_of ''0987654321''"]
      edit_phone_found_or_not [of
        "\<lparr>name = Name ''Bob'', phones = [Phone_of ''1234567890'', Phone_of ''5555555555''],
           birthday = None\<rparr>"
        "''1234567890''" "''0987654321''" "Phone_of ''0987654321''"]
    by simp
qed

text \<open>
  C9. When some phone of the record equals \<open>old\<close> and \<open>new\<close> is not a string of ten
  digit characters, \<open>edit_phone old new\<close> raises the validation error of Phone, and the
  record it leaves differs from the one it was given: the phones equal to \<open>old\<close> are
  gone and \<open>new\<close> has not been appended.
\<close>

theorem edit_phone_invalid_new:
  assumes "\<exists>p\<in>set (phones r). phone_value p = old"
    and "\<not> (isdigit new \<and> length new = 10)"
  shows "edit_phone old new r =
           (Some (ValueError ''Invalid phone number format. Phone not added.''),
            r\<lparr>phones := filter (\<lambda>p. phone_value p \<noteq> old) (phones r)\<rparr>)
    \<and> phones (snd (edit_phone old new r)) \<noteq> phones r
    \<and> (\<forall>p\<in>set (phones (snd (edit_phone old new r))). phone_value p \<noteq> old)"
proof -
  have e: "edit_phone old new r =
           (Some (ValueError ''Invalid phone number format. Phone not added.''),
            r\<lparr>phones := filter (\<lambda>p. phone_value p \<noteq> old) (phones r)\<rparr>)"
    using assms by (auto simp: edit_phone_def add_phone_def remove_phone_def list_ex_iff Phone_def)
  have "filter (\<lambda>p. phone_value p \<noteq> old) (phones r) \<noteq> phones r"
    using assms(1) by (auto simp: filter_id_conv)
  with e show ?thesis by simp
qed

theorem edit_phone_invalid_new_witness:
  "(\<exists>p\<in>set [Phone_of ''1234567890'', Phone_of ''5555555555'']. phone_value p = ''1234567890'')
   \<and> \<not> (isdigit ''12ab'' \<and> length ''12ab'' = 10)
   \<and> edit_phone ''1234567890'' ''12ab''
        \<lparr>name = Name ''Bob'', phones = [Phone_of ''1234567890'', Phone_of ''5555555555''],
           birthday = None\<rparr>
      = (Some (ValueError ''Invalid phone number format. Phone not added.''),
         \<lparr>name = Name ''Bob'', phones = [Phone_of ''5555555555''], birthday = None\<rparr>)"
  using edit_phone_invalid_new [of
      "\<lparr>name = Name ''Bob'', phones = [Phone_of ''1234567890'', Phone_of ''5555555555''],
         birthday = None\<rparr>"
      "''1234567890''" "''12ab''"]
  by simp

subsection \<open>Days to the next birthday\<close>

text \<open>
  C1. On the birthday itself, at any time after midnight, \<open>days_to_birthday\<close> does not
  return 0: \<open>today\<close> carries the time of day and is later than this year's birthday at
  midnight, so the count runs to next year's birthday. At noon of 2024-05-20, for a
  birthday on 05-20, the result is 364.
\<close>

theorem days_to_birthday_on_birthday_at_noon:
  "days_to_birthday
     \<lparr>year = 2024, month = 5, day = 20, hour = 12, minute = 0, second = 0, microsecond = 0\<rparr>
     \<lparr>name = Name ''Alice'', phones = [],
        birthday = Some (Birthday_of \<lparr>year = 2000, month = 5, day = 20\<rparr>)\<rparr>
   = Inr (Some 364)"
  by (simp add: days_to_birthday_def datetime_new_def check_date_fields_def days_in_month_def
      is_leap_def datetime_gt_def datetime_fields_def datetime_sub_days_def timedelta_days_def
      toordinal_def ymd2ord_def days_before_year_def days_before_month_def)

subsection \<open>One record per name\<close>

lemma in_set_updateD: "x \<in> set (AList.update k v al) \<Longrightarrow> x = (k, v) \<or> x \<in> set al"
  by (induction al) (auto split: if_splits)

lemma in_set_deleteD: "x \<in> set (AList.delete k al) \<Longrightarrow> x \<in> set al"
  by (induction al) (auto split: if_splits)

lemma add_record_keyed: "keyed_by_name b \<Longrightarrow> keyed_by_name (add_record r b)"
  unfolding keyed_by_name_def add_record_def
  by (auto simp: distinct_update dest!: in_set_updateD)

lemma delete_keyed: "keyed_by_name b \<Longrightarrow> keyed_by_name (delete nm b)"
  unfolding keyed_by_name_def delete_def
  by (auto simp: distinct_delete dest!: in_set_deleteD)

lemma load_records_keyed: "keyed_by_name b \<Longrightarrow> keyed_by_name (snd (load_records doc b))"
  by (induction doc arbitrary: b) (auto split: sum.splits option.splits prod.splits simp: add_record_keyed)

lemma load_keyed: "keyed_by_name b \<Longrightarrow> keyed_by_name (snd (load_from_file f fs b))"
  by (auto simp: load_from_file_def load_records_keyed split: option.splits)

lemma reachable_keyed: "reachable b \<Longrightarrow> keyed_by_name b"
proof (induction rule: reachable.induct)
  case reachable_empty
  show ?case by (simp add: keyed_by_name_def)
qed (simp_all add: add_record_keyed delete_keyed load_keyed)

text \<open>
  C8. A book built from the empty book by \<open>add_record\<close>, \<open>delete\<close> and \<open>load_from_file\<close>
  holds at most one record per name: no key occurs twice and every record is stored under
  its own name. \<open>add_record\<close> stores the record under its name and leaves every other key
  as it was, so a record already stored under that name is replaced.
\<close>

theorem reachable_one_record_per_name:
  "(reachable b \<longrightarrow>
      distinct (map fst (data b)) \<and> (\<forall>(k, r)\<in>set (data b). name_value (name r) = k))
   \<and> map_of (data (add_record record b))
       = (map_of (data b))(name_value (name record) \<mapsto> record)"
  using reachable_keyed [of b]
  by (auto simp: keyed_by_name_def add_record_def update_conv')

theorem reachable_one_record_per_name_witness:
  "reachable (add_record \<lparr>name = Name ''Bob'', phones = [], birthday = None\<rparr>
      (add_record \<lparr>name = Name ''Bob'', phones = [Phone_of ''1234567890''], birthday = None\<rparr>
         \<lparr>data = []\<rparr>))
   \<and> data (add_record \<lparr>name = Name ''Bob'', phones = [], birthday = None\<rparr>
      (add_record \<lparr>name = Name ''Bob'', phones = [Phone_of ''1234567890''], birthday = None\<rparr>
         \<lparr>data = []\<rparr>))
     = [(''Bob'', \<lparr>name = Name ''Bob'', phones = [], birthday = None\<rparr>)]
   \<and> distinct (map fst (data (add_record \<lparr>name = Name ''Bob'', phones = [], birthday = None\<rparr>
      (add_record \<lparr>name = Name ''Bob'', phones = [Phone_of ''1234567890''], birthday = None\<rparr>
         \<lparr>data = []\<rparr>))))"
proof -
  have r: "reachable (add_record \<lparr>name = Name ''Bob'', phones = [], birthday = None\<rparr>
      (add_record \<lparr>name = Name ''Bob'', phones = [Phone_of ''1234567890''], birthday = None\<rparr>
         \<lparr>data = []\<rparr>))"
    by (intro reachable.intros)
  show ?thesis
    using r reachable_one_record_per_name [of
        "add_record \<lparr>name = Name ''Bob'', phones = [], birthday = None\<rparr>
          (add_record \<lparr>name = Name ''Bob'', phones = [Phone_of ''1234567890''], birthday = None\<rparr>
             \<lparr>data = []\<rparr>)"]
    by (simp add: add_record_def)
qed

subsection \<open>Loading merges\<close>

lemma Record_name: "Record nm bd = Inr r \<Longrightarrow> name r = Name nm"
  by (auto simp: Record_def split: option.splits if_splits sum.splits)

lemma add_phone_name: "name (snd (add_phone p r)) = name r"
  by (auto simp: add_phone_def split: sum.splits)

lemma add_phones_name: "name (snd (add_phones ps r)) = name r"
proof (induction ps arbitrary: r)
  case (Cons p ps)
  show ?case using Cons[of "snd (add_phone p r)"] add_phone_name[of p r]
    by (auto split: prod.splits option.splits)
qed simp

lemma load_records_frame:
  "nm \<notin> fst ` set doc \<Longrightarrow> map_of (data (snd (load_records doc b))) nm = map_of (data b) nm"
proof (induction doc arbitrary: b)
  case (Cons x doc)
  obtain k rd where x: "x = (k, rd)" by (cases x)
  from Cons.prems x have k: "nm \<noteq> k" and nd: "nm \<notin> fst ` set doc" by auto
  show ?case
  proof (cases "Record k (birthday_json rd)")
    case (Inl e) then show ?thesis using x by simp
  next
    case (Inr r0)
    show ?thesis
    proof (cases "add_phones (phones_json rd) r0")
      case (Pair eo r1)
      have n1: "name r1 = Name k" using add_phones_name[of "phones_json rd" r0] Pair Record_name[OF Inr] by simp
      show ?thesis
      proof (cases eo)
        case None
        then show ?thesis using x Inr Pair Cons.IH[OF nd, of "add_record r1 b"] n1 k
          by (simp add: add_record_def update_conv')
      next
        case (Some e) then show ?thesis using x Inr Pair by simp
      qed
    qed
  qed
qed simp

lemma load_records_overwrite:
  "load_records doc b = (None, b1) \<Longrightarrow> map_of (rev doc) nm = Some rd \<Longrightarrow>
     \<exists>r0 r1. Record nm (birthday_json rd) = Inr r0 \<and> add_phones (phones_json rd) r0 = (None, r1)
        \<and> map_of (data b1) nm = Some r1"
proof (induction doc arbitrary: b)
  case (Cons x doc)
  obtain k rd' where x: "x = (k, rd')" by (cases x)
  from Cons.prems(1) x obtain r0 r1 where r0: "Record k (birthday_json rd') = Inr r0"
     and r1: "add_phones (phones_json rd') r0 = (None, r1)"
     and rest: "load_records doc (add_record r1 b) = (None, b1)"
    by (auto split: sum.splits prod.splits option.splits)
  have n1: "name r1 = Name k" using add_phones_name[of "phones_json rd'" r0] r1 Record_name[OF r0] by simp
  show ?case
  proof (cases "map_of (rev doc) nm")
    case None
    then have nd: "nm \<notin> fst ` set doc" by (metis map_of_eq_None_iff set_rev)
    from None Cons.prems(2) x have "nm = k" "rd = rd'" by (auto simp: map_add_def split: if_splits)
    moreover have "map_of (data b1) nm = map_of (data (add_record r1 b)) nm"
      using load_records_frame[OF nd, of "add_record r1 b"] rest by simp
    ultimately show ?thesis using r0 r1 n1 by (simp add: add_record_def update_conv')
  next
    case (Some rd2)
    with Cons.prems(2) x have "rd2 = rd" by (auto simp: map_add_def)
    with Some Cons.IH[OF rest] show ?thesis by simp
  qed
qed simp

text \<open>
  C10. \<open>load_from_file\<close> does not clear the book. Whatever the file holds, a record whose
  name is not in the file is after the load what it was before; and when the load
  returns, each name of the file maps to the record built from the file's entry for it
  (the name, the birthday given to \<open>Record\<close>, the phones added one by one).
\<close>

theorem load_from_file_merges:
  assumes "fs filename = Some doc"
  shows "(\<forall>nm. nm \<notin> fst ` set doc \<longrightarrow>
            map_of (data (snd (load_from_file filename fs b))) nm = map_of (data b) nm)
    \<and> (\<forall>b1 nm rd. load_from_file filename fs b = (None, b1) \<and> map_of (rev doc) nm = Some rd \<longrightarrow>
          (\<exists>r0 r1. Record nm (birthday_json rd) = Inr r0
             \<and> add_phones (phones_json rd) r0 = (None, r1)
             \<and> map_of (data b1) nm = Some r1))"
  using assms load_records_frame [of _ doc b] load_records_overwrite [of doc b]
  by (simp add: load_from_file_def)

theorem load_from_file_merges_witness:
  "[''book.json'' \<mapsto>
      [(''Alice'', \<lparr>phones_json = [''1234567890''], birthday_json = Some ''2000-05-20''\<rparr>)]]
     ''book.json''
     = Some [(''Alice'', \<lparr>phones_json = [''1234567890''], birthday_json = Some ''2000-05-20''\<rparr>)]
   \<and> load_from_file ''book.json''
       [''book.json'' \<mapsto>
          [(''Alice'', \<lparr>phones_json = [''1234567890''], birthday_json = Some ''2000-05-20''\<rparr>)]]
       \<lparr>data = [(''Bob'', \<lparr>name = Name ''Bob'', phones = [Phone_of ''5555555555''],
                            birthday = None\<rparr>)]\<rparr>
     = (None,
        \<lparr>data = [(''Bob'', \<lparr>name = Name ''Bob'', phones = [Phone_of ''5555555555''],
                             birthday = None\<rparr>),
                 (''Alice'', \<lparr>name = Name ''Alice'', phones = [Phone_of ''1234567890''],
                    birthday = Some (Birthday_of \<lparr>year = 2000, month = 5, day = 20\<rparr>)\<rparr>)]\<rparr>)"
proof -
  have ev: "load_from_file ''book.json''
       [''book.json'' \<mapsto>
          [(''Alice'', \<lparr>phones_json = [''1234567890''], birthday_json = Some ''2000-05-20''\<rparr>)]]
       \<lparr>data = [(''Bob'', \<lparr>name = Name ''Bob'', phones = [Phone_of ''5555555555''],
                            birthday = None\<rparr>)]\<rparr>
     = (None,
        \<lparr>data = [(''Bob'', \<lparr>name = Name ''Bob'', phones = [Phone_of ''5555555555''],
                             birthday = None\<rparr>),
                 (''Alice'', \<lparr>name = Name ''Alice'', phones = [Phone_of ''1234567890''],
                    birthday = Some (Birthday_of \<lparr>year = 2000, month = 5, day = 20\<rparr>)\<rparr>)]\<rparr>)"
    by code_simp
  show ?thesis
    using ev load_from_file_merges [of
        "[''book.json'' \<mapsto>
          [(''Alice'', \<lparr>phones_json = [''1234567890''], birthday_json = Some ''2000-05-20''\<rparr>)]]"
        "''book.json''"
        "[(''Alice'', \<lparr>phones_json = [''1234567890''], birthday_json = Some ''2000-05-20''\<rparr>)]"
        "\<lparr>data = [(''Bob'', \<lparr>name = Name ''Bob'', phones = [Phone_of ''5555555555''],
                            birthday = None\<rparr>)]\<rparr>"]
    by simp
qed

subsection \<open>Pages\<close>

lemma full_pages_rec:
  assumes "0 < n"
  shows "full_pages n es = (if length es < n then [] else concat (take n es) # full_pages n (drop n es))"
proof (cases "length es < n")
  case True
  then show ?thesis by (simp add: full_pages_def)
next
  case False
  then have le: "n \<le> length es" by simp
  have d: "length es div n = Suc ((length es - n) div n)"
    using le assms by (simp add: le_div_geq)
  have "full_pages n es = map (\<lambda>i. concat (take n (drop (i * n) es))) (0 # map Suc [0..<(length es - n) div n])"
    unfolding full_pages_def d by (simp only: upt_conv_Cons [of 0] map_Suc_upt zero_less_Suc)
  also have "\<dots> = concat (take n es) # full_pages n (drop n es)"
    by (simp add: full_pages_def comp_def add.commute)
  finally show ?thesis using False by simp
qed

lemma iterator_loop_fill:
  "0 \<le> c \<Longrightarrow> c < N \<Longrightarrow>
   iterator_loop N xs c res =
     (if length xs < nat (N - c) then []
      else (res @ concat (take (nat (N - c)) (map entry xs)))
             # iterator_loop N (drop (nat (N - c)) xs) 0 [])"
proof (induction xs arbitrary: c res)
  case Nil
  then show ?case by simp
next
  case (Cons x xs)
  obtain item r where x: "x = (item, r)" by (cases x)
  show ?case
  proof (cases "c + 1 \<ge> N")
    case True
    with Cons.prems have "N - c = 1" by simp
    moreover have "entry (item, r) = item @ '': '' @ str_Record r" by (simp add: entry_def)
    ultimately show ?thesis using True unfolding x by simp
  next
    case False
    then have c1: "0 \<le> c + 1" "c + 1 < N" using Cons.prems by simp_all
    have n: "nat (N - c) = Suc (nat (N - (c + 1)))" using c1 Cons.prems by simp
    have e: "entry (item, r) = item @ '': '' @ str_Record r" by (simp add: entry_def)
    show ?thesis
      using False Cons.IH [OF c1, of "res @ item @ '': '' @ str_Record r"]
      unfolding x by (simp add: n e Let_def)
  qed
qed

lemma iterator_loop_pages:
  "1 \<le> N \<Longrightarrow> iterator_loop N xs 0 [] = full_pages (nat N) (map entry xs)"
proof (induction "length xs" arbitrary: xs rule: less_induct)
  case less
  have n0: "0 < nat N" using less.prems by simp
  show ?case
  proof (cases "length xs < nat N")
    case True
    then show ?thesis
      using iterator_loop_fill [of 0 N xs "[]"] less.prems full_pages_rec [OF n0, of "map entry xs"]
      by simp
  next
    case False
    then have "length (drop (nat N) xs) < length xs" using n0 by simp
    from less.hyps [OF this less.prems]
    show ?thesis
      using False iterator_loop_fill [of 0 N xs "[]"] less.prems
        full_pages_rec [OF n0, of "map entry xs"]
      by (simp add: drop_map)
  qed
qed

lemma full_page_length:
  assumes "i < length es div n"
  shows "length (take n (drop (i * n) es)) = n"
proof -
  from assms have "Suc i \<le> length es div n" by simp
  then have "Suc i * n \<le> length es div n * n" by (rule mult_le_mono1)
  also have "\<dots> \<le> length es" by simp
  finally show ?thesis by simp
qed

text \<open>
  C6. For a page size of at least 1 and a book of \<open>n\<close> records, \<open>iterator\<close> yields
  \<open>n div page_size\<close> pages; page \<open>i\<close> is the concatenation of the entries
  \<open>name: summary\<close> of the items \<open>i * page_size\<close> up to \<open>(i + 1) * page_size - 1\<close> in the
  order of the dict, exactly \<open>page_size\<close> of them. The items after the last full page
  are in no page.
\<close>

theorem iterator_full_pages:
  assumes "1 \<le> page_size"
  shows "iterator page_size b =
           map (\<lambda>i. concat (map (\<lambda>(item, record). item @ '': '' @ str_Record record)
                               (take (nat page_size) (drop (i * nat page_size) (data b)))))
             [0..<length (data b) div nat page_size]
    \<and> length (iterator page_size b) = length (data b) div nat page_size
    \<and> (\<forall>i<length (data b) div nat page_size.
          length (take (nat page_size) (drop (i * nat page_size) (data b))) = nat page_size)"
proof -
  have e: "entry = (\<lambda>(item, record). item @ '': '' @ str_Record record)"
    by (auto simp: entry_def fun_eq_iff)
  have "iterator page_size b = full_pages (nat page_size) (map entry (data b))"
    using iterator_loop_pages [OF assms, of "data b"] by (simp add: iterator_def)
  then have "iterator page_size b =
           map (\<lambda>i. concat (map (\<lambda>(item, record). item @ '': '' @ str_Record record)
                               (take (nat page_size) (drop (i * nat page_size) (data b)))))
             [0..<length (data b) div nat page_size]"
    by (simp add: full_pages_def e take_map drop_map)
  then show ?thesis using full_page_length [of _ "data b" "nat page_size"] by simp
qed

theorem iterator_full_pages_witness:
  "(1::int) \<le> 2
   \<and> iterator 2
       \<lparr>data = [(''Ann'', \<lparr>name = Name ''Ann'', phones = [Phone_of ''1234567890''], birthday = None\<rparr>),
                (''Bob'', \<lparr>name = Name ''Bob'', phones = [], birthday = None\<rparr>),
                (''Cy'', \<lparr>name = Name ''Cy'', phones = [], birthday = None\<rparr>)]\<rparr>
     = [''Ann: Contact name: Ann, phones: 1234567890Bob: Contact name: Bob, phones: '']
   \<and> length (iterator 2
       \<lparr>data = [(''Ann'', \<lparr>name = Name ''Ann'', phones = [Phone_of ''1234567890''], birthday = None\<rparr>),
                (''Bob'', \<lparr>name = Name ''Bob'', phones = [], birthday = None\<rparr>),
                (''Cy'', \<lparr>name = Name ''Cy'', phones = [], birthday = None\<rparr>)]\<rparr>) = 1"
  using iterator_full_pages [of 2
       "\<lparr>data = [(''Ann'', \<lparr>name = Name ''Ann'', phones = [Phone_of ''1234567890''], birthday = None\<rparr>),
                (''Bob'', \<lparr>name = Name ''Bob'', phones = [], birthday = None\<rparr>),
                (''Cy'', \<lparr>name = Name ''Cy'', phones = [], birthday = None\<rparr>)]\<rparr>"]
  by (simp add: str_Record_def)

subsection \<open>Search\<close>












subsection \<open>Birthday validation\<close>

lemma char_codes:
  "(a = CHR ''-'') = (of_char a = (45::nat))"
  "(a = CHR '' '') = (of_char a = (32::nat))"
  "(a = CHR ''0'') = (of_char a = (48::nat))"
  "(a = CHR ''1'') = (of_char a = (49::nat))"
  "(a = CHR ''3'') = (of_char a = (51::nat))"
  using char_eq_code [of a "CHR ''-''"] char_eq_code [of a "CHR '' ''"] char_eq_code [of a "CHR ''0''"]
    char_eq_code [of a "CHR ''1''"] char_eq_code [of a "CHR ''3''"]
  by simp_all

lemmas field_defs = month_field_def day_field_def day_value_def decimal_value_def decimal_digit_def
  chr_in_def digit_val_def

lemma month_field1: "month_field [a] \<longleftrightarrow> chr_in CHR ''1'' CHR ''9'' a"
  unfolding field_defs by simp arith

lemma month_field2:
  "month_field [a, c] \<longleftrightarrow>
     (a = CHR ''1'' \<and> chr_in CHR ''0'' CHR ''2'' c) \<or> (a = CHR ''0'' \<and> chr_in CHR ''1'' CHR ''9'' c)"
  unfolding field_defs char_codes by simp arith

lemma day_field1: "day_field [a] \<longleftrightarrow> chr_in CHR ''1'' CHR ''9'' a"
  unfolding field_defs char_codes by simp arith

lemma day_field2:
  "day_field [a, b] \<longleftrightarrow>
     (a = CHR ''3'' \<and> chr_in CHR ''0'' CHR ''1'' b)
     \<or> (chr_in CHR ''1'' CHR ''2'' a \<and> chr_in CHR ''0'' CHR ''9'' b)
     \<or> (a = CHR ''0'' \<and> chr_in CHR ''1'' CHR ''9'' b)
     \<or> (a = CHR '' '' \<and> chr_in CHR ''1'' CHR ''9'' b)"
  unfolding field_defs char_codes by simp arith

lemma day_field_other: "day_field [] = False" "day_field (a # b # c # r) = False"
  unfolding field_defs by simp_all


lemma first_full_simps:
  "first_full [] = None"
  "first_full ((v, r) # ms) = (if r = [] then Some v else None)"
  by (simp_all add: first_full_def)

lemma first_full_map:
  "first_full (map (\<lambda>(v, r). (f v, r)) ms) = map_option f (first_full ms)"
  by (cases ms) (auto simp: first_full_def)

lemma day_value1: "chr_in CHR ''1'' CHR ''9'' a \<Longrightarrow> day_value [a] = digit_val a"
  unfolding field_defs char_codes by simp

lemma day_value2:
  "day_value [a, b] = (if a = CHR '' '' then digit_val b else 10 * digit_val a + digit_val b)"
  unfolding field_defs by simp

lemma first_full_re_d:
  "first_full (re_d r) = (if day_field r then Some (day_value r) else None)"
proof (cases r)
  case Nil
  then show ?thesis by (simp add: re_d_def day_field_other first_full_simps)
next
  case (Cons a r1)
  note r = this
  show ?thesis
  proof (cases r1)
    case Nil
    then show ?thesis unfolding r
      by (simp add: re_d_def day_field1 day_value1 first_full_simps)
  next
    case (Cons b r2)
    note r1 = this
    show ?thesis
    proof (cases r2)
      case Nil
      show ?thesis unfolding r r1 Nil day_field2 day_value2 re_d_def
        by (auto simp: first_full_simps chr_in_def char_codes)
    next
      case (Cons c r3)
      show ?thesis unfolding r r1 Cons re_d_def
        by (simp add: first_full_simps day_field_other)
    qed
  qed
qed


lemma decimal_value_simps:
  "decimal_value [a] = digit_val a"
  "decimal_value [a, c] = 10 * digit_val a + digit_val c"
  "decimal_value [a, b, c, d] = 1000 * digit_val a + 100 * digit_val b + 10 * digit_val c + digit_val d"
  unfolding field_defs by simp_all

lemma first_full_day:
  "first_full (map (\<lambda>(d, r5). ((y, m, d), r5)) (re_d r)) =
     (if day_field r then Some (y, m, day_value r) else None)"
  using first_full_map [of "\<lambda>d. (y, m, d)" "re_d r"] by (simp add: first_full_re_d)

lemma first_full_month_day:
  "first_full [((y, m, d), r5). (m, r3) \<leftarrow> re_m r, (v, r4) \<leftarrow> re_lit CHR ''-'' r3, (d, r5) \<leftarrow> re_d r4]
   = (if length r < 3 then None
      else let M = (if r ! 1 = CHR ''-'' then take 1 r else take 2 r); D = drop (1 + length M) r
           in if month_field M \<and> r ! length M = CHR ''-'' \<and> day_field D
              then Some (y, decimal_value M, day_value D) else None)"
proof (cases r)
  case Nil
  then show ?thesis by (simp add: re_m_def first_full_simps)
next
  case (Cons a r1)
  note r = this
  show ?thesis
  proof (cases r1)
    case Nil
    then show ?thesis unfolding r by (simp add: re_m_def first_full_simps)
  next
    case (Cons c r2)
    note r1 = this
    show ?thesis
    proof (cases "c = CHR ''-''")
      case True
      then show ?thesis unfolding r r1
        by (simp add: re_m_def first_full_simps month_field1 decimal_value_simps chr_in_def first_full_day Let_def day_field_other)
    next
      case False
      show ?thesis
      proof (cases r2)
        case Nil
        then show ?thesis unfolding r r1 using False
          by (simp add: re_m_def first_full_simps)
      next
        case (Cons e r3)
        then show ?thesis unfolding r r1 using False
          by (simp add: re_m_def first_full_simps month_field2 decimal_value_simps first_full_day Let_def day_field_other)
      qed
    qed
  qed
qed


lemma format_regex_match_short:
  "format_regex_match [] = []" "format_regex_match [a] = []" "format_regex_match [a, b] = []"
  "format_regex_match [a, b, c] = []" "format_regex_match [a, b, c, d] = []"
  by (simp_all add: format_regex_match_def)

lemma format_regex_match_year:
  "format_regex_match (a # b # c # d # e # r) =
     (if chr_in CHR ''0'' CHR ''9'' a \<and> chr_in CHR ''0'' CHR ''9'' b \<and> chr_in CHR ''0'' CHR ''9'' c
         \<and> chr_in CHR ''0'' CHR ''9'' d \<and> e = CHR ''-''
      then [((1000 * digit_val a + 100 * digit_val b + 10 * digit_val c + digit_val d, m, dd), r5).
              (m, r3) \<leftarrow> re_m r, (v, r4) \<leftarrow> re_lit CHR ''-'' r3, (dd, r5) \<leftarrow> re_d r4]
      else [])"
  by (simp add: format_regex_match_def)

lemma written_date_year:
  "written_date (a # b # c # d # e # r) =
     (if chr_in CHR ''0'' CHR ''9'' a \<and> chr_in CHR ''0'' CHR ''9'' b \<and> chr_in CHR ''0'' CHR ''9'' c
         \<and> chr_in CHR ''0'' CHR ''9'' d \<and> e = CHR ''-''
      then (if length r < 3 then None
            else let M = (if r ! 1 = CHR ''-'' then take 1 r else take 2 r); D = drop (1 + length M) r
              in if month_field M \<and> r ! length M = CHR ''-'' \<and> day_field D
                 then Some (1000 * digit_val a + 100 * digit_val b + 10 * digit_val c + digit_val d,
                            decimal_value M, day_value D) else None)
      else None)"
proof (cases "length r < 3")
  case True
  then show ?thesis by (simp add: written_date_def)
next
  case False
  then obtain x y z r' where r: "r = x # y # z # r'"
    by (cases r; simp; rename_tac r1; case_tac r1; simp; rename_tac r2; case_tac r2; simp)
  show ?thesis unfolding r
    by (simp add: written_date_def decimal_value_simps decimal_digit_def chr_in_def Let_def)
qed

lemma first_full_format:
  "first_full (format_regex_match s) = written_date s"
proof -
  consider "s = []" | a where "s = [a]" | a b where "s = [a, b]" | a b c where "s = [a, b, c]"
    | a b c d where "s = [a, b, c, d]" | a b c d e r where "s = a # b # c # d # e # r"
    by (cases s; simp; rename_tac r1; case_tac r1; simp; rename_tac r2; case_tac r2; simp;
        rename_tac r3; case_tac r3; simp; rename_tac r4; case_tac r4; simp)
  then show ?thesis
  proof cases
    case 6
    show ?thesis
      unfolding 6 format_regex_match_year written_date_year
      by (simp only: first_full_month_day first_full_simps if_distrib [of first_full] cong: if_cong)
  qed (simp_all add: format_regex_match_short first_full_simps written_date_def)
qed


lemma check_date_fields_error: "check_date_fields y m d = Some e \<Longrightarrow> \<exists>msg. e = ValueError msg"
  by (auto simp: check_date_fields_def split: if_splits)

lemma Birthday_first_full:
  "Birthday s =
     (case first_full (format_regex_match s) of
        Some (y, m, d) \<Rightarrow>
          if check_date_fields y m d = None
          then Inr (Birthday_of \<lparr>year = y, month = m, day = d\<rparr>)
          else Inl (ValueError ''Invalid birthday format. Use YYYY-MM-DD'')
      | None \<Rightarrow> Inl (ValueError ''Invalid birthday format. Use YYYY-MM-DD''))"
proof (cases "format_regex_match s")
  case Nil
  then show ?thesis by (simp add: Birthday_def strptime_def first_full_def)
next
  case (Cons x ms)
  obtain y m d rest where x: "x = ((y, m, d), rest)" by (cases x) auto
  show ?thesis
  proof (cases "check_date_fields y m d")
    case None
    then show ?thesis using Cons x
      by (simp add: Birthday_def strptime_def first_full_def date_new_def)
  next
    case (Some e)
    then obtain msg where "e = ValueError msg" using check_date_fields_error by blast
    with Some show ?thesis using Cons x
      by (simp add: Birthday_def strptime_def first_full_def date_new_def)
  qed
qed

lemma iso_format_written:
  assumes "iso_format s"
  shows "written_date s =
     (if 1 \<le> decimal_value (take 2 (drop 5 s)) \<and> decimal_value (take 2 (drop 5 s)) \<le> 12
         \<and> 1 \<le> decimal_value (drop 8 s) \<and> decimal_value (drop 8 s) \<le> 31
      then Some (decimal_value (take 4 s), decimal_value (take 2 (drop 5 s)), decimal_value (drop 8 s))
      else None)"
proof -
  from assms have "length s = 10" by (simp add: iso_format_def)
  then obtain a1 a2 a3 a4 a5 a6 a7 a8 a9 a10 where s: "s = [a1, a2, a3, a4, a5, a6, a7, a8, a9, a10]"
    by (cases s; simp; rename_tac r1; case_tac r1; simp; rename_tac r2; case_tac r2; simp;
        rename_tac r3; case_tac r3; simp; rename_tac r4; case_tac r4; simp;
        rename_tac r5; case_tac r5; simp; rename_tac r6; case_tac r6; simp;
        rename_tac r7; case_tac r7; simp; rename_tac r8; case_tac r8; simp;
        rename_tac r9; case_tac r9; simp)
  from assms have d: "decimal_digit a1" "decimal_digit a2" "decimal_digit a3" "decimal_digit a4"
      "a5 = CHR ''-''" "decimal_digit a6" "decimal_digit a7" "a8 = CHR ''-''"
      "decimal_digit a9" "decimal_digit a10"
    unfolding s by (simp_all add: iso_format_def)
  have n: "a7 \<noteq> CHR ''-''" "a9 \<noteq> CHR '' ''"
    using d(7,9) unfolding decimal_digit_def char_codes by simp_all
  show ?thesis
    unfolding s using d n
    by (simp add: written_date_def month_field_def day_field_def day_value_def Let_def)
qed

text \<open>
  The month written with one digit: \<open>2000-5-20\<close> is not of the strict form
  \<open>YYYY-MM-DD\<close>, and the constructor accepts it as the 20th of May 2000.
\<close>

theorem Birthday_one_digit_month:
  "Birthday ''2000-5-20'' = Inr (Birthday_of \<lparr>year = 2000, month = 5, day = 20\<rparr>)
   \<and> \<not> iso_format ''2000-5-20''"
  by code_simp

text \<open>
  C7, as the code has it. Constructing a Birthday from a string \<open>s\<close> succeeds exactly
  when \<open>s\<close> is of the form \<open>Y-M-D\<close> of \<open>written_date\<close> and the three numbers are a date of
  the calendar (a year from 1, a day within the month); the birthday then holds that
  date. In every other case the constructor raises the validation error
  "Invalid birthday format. Use YYYY-MM-DD" and yields no birthday. A string of the strict
  form \<open>YYYY-MM-DD\<close> is of the form \<open>Y-M-D\<close> whenever its month is from 1 to 12 and its day
  from 1 to 31, and is read as the year, month and day it writes.
\<close>

theorem Birthday_accepts_iff:
  "Birthday s =
     (case written_date s of
        Some (y, m, d) \<Rightarrow>
          if check_date_fields y m d = None
          then Inr (Birthday_of \<lparr>year = y, month = m, day = d\<rparr>)
          else Inl (ValueError ''Invalid birthday format. Use YYYY-MM-DD'')
      | None \<Rightarrow> Inl (ValueError ''Invalid birthday format. Use YYYY-MM-DD''))
   \<and> (iso_format s \<longrightarrow>
        written_date s =
          (if 1 \<le> decimal_value (take 2 (drop 5 s)) \<and> decimal_value (take 2 (drop 5 s)) \<le> 12
              \<and> 1 \<le> decimal_value (drop 8 s) \<and> decimal_value (drop 8 s) \<le> 31
           then Some (decimal_value (take 4 s), decimal_value (take 2 (drop 5 s)),
                      decimal_value (drop 8 s))
           else None))"
  using Birthday_first_full [of s] iso_format_written [of s]
  by (simp only: first_full_format) blast

theorem Birthday_accepts_iff_witness:
  "iso_format ''2000-05-20''
   \<and> Birthday ''2000-05-20'' = Inr (Birthday_of \<lparr>year = 2000, month = 5, day = 20\<rparr>)
   \<and> Birthday ''2000-5-20'' = Inr (Birthday_of \<lparr>year = 2000, month = 5, day = 20\<rparr>)
   \<and> Birthday ''2000-12- 7'' = Inr (Birthday_of \<lparr>year = 2000, month = 12, day = 7\<rparr>)
   \<and> iso_format ''2001-02-29'' \<and> Birthday ''2001-02-29'' = Inl (ValueError ''Invalid birthday format. Use YYYY-MM-DD'')
   \<and> iso_format ''2000-13-01'' \<and> Birthday ''2000-13-01'' = Inl (ValueError ''Invalid birthday format. Use YYYY-MM-DD'')
   \<and> iso_format ''0000-01-01'' \<and> Birthday ''0000-01-01'' = Inl (ValueError ''Invalid birthday format. Use YYYY-MM-DD'')
   \<and> Birthday ''2000/05/20'' = Inl (ValueError ''Invalid birthday format. Use YYYY-MM-DD'')
   \<and> Birthday ''2000-05-20 '' = Inl (ValueError ''Invalid birthday format. Use YYYY-MM-DD'')
   \<and> Birthday ''20-05-2000'' = Inl (ValueError ''Invalid birthday format. Use YYYY-MM-DD'')
   \<and> Birthday [] = Inl (ValueError ''Invalid birthday format. Use YYYY-MM-DD'')"
proof -
  have ev: "iso_format ''2000-05-20''"
    "Birthday ''2000-05-20'' = Inr (Birthday_of \<lparr>year = 2000, month = 5, day = 20\<rparr>)"
    "Birthday ''2000-5-20'' = Inr (Birthday_of \<lparr>year = 2000, month = 5, day = 20\<rparr>)"
    "Birthday ''2000-12- 7'' = Inr (Birthday_of \<lparr>year = 2000, month = 12, day = 7\<rparr>)"
    "iso_format ''2001-02-29''" "Birthday ''2001-02-29'' = Inl (ValueError ''Invalid birthday format. Use YYYY-MM-DD'')"
    "iso_format ''2000-13-01''" "Birthday ''2000-13-01'' = Inl (ValueError ''Invalid birthday format. Use YYYY-MM-DD'')"
    "iso_format ''0000-01-01''" "Birthday ''0000-01-01'' = Inl (ValueError ''Invalid birthday format. Use YYYY-MM-DD'')"
    "Birthday ''2000/05/20'' = Inl (ValueError ''Invalid birthday format. Use YYYY-MM-DD'')"
    "Birthday ''2000-05-20 '' = Inl (ValueError ''Invalid birthday format. Use YYYY-MM-DD'')"
    "Birthday ''20-05-2000'' = Inl (ValueError ''Invalid birthday format. Use YYYY-MM-DD'')"
    "Birthday [] = Inl (ValueError ''Invalid birthday format. Use YYYY-MM-DD'')"
    by code_simp+
  show ?thesis
    using ev Birthday_accepts_iff [of "''2000-05-20''"]
    by simp
qed

end
